theory Spec2Isabelle
  imports Complex_Main
begin

section \<open>Python values and errors\<close>

text \<open>
  Every exception the two scripts can raise is a value of \<open>py_error\<close>; a computation that
  may raise returns \<open>py_error + 'a\<close>, with \<open>Inl\<close> for the exception.  Console output
  (the \<open>print\<close> lines) is not part of the model.
\<close>

datatype py_error =
    NameError string
  | IndexError
  | IOError
  | ValueError string
  | OtherError string

definition bind_err :: "py_error + 'a \<Rightarrow> ('a \<Rightarrow> py_error + 'b) \<Rightarrow> py_error + 'b" where
  "bind_err r f = (case r of Inl e \<Rightarrow> Inl e | Inr v \<Rightarrow> f v)"

text \<open>Python list indexing \<open>xs[i]\<close>: a negative index counts from the end, anything
  outside \<open>[-len, len)\<close> raises \<open>IndexError\<close>.\<close>

definition py_index :: "'a list \<Rightarrow> int \<Rightarrow> py_error + 'a" where
  "py_index xs i =
     (let n = int (length xs); j = (if i < 0 then i + n else i)
      in if 0 \<le> j \<and> j < n then Inr (xs ! nat j) else Inl IndexError)"

section \<open>mnist.py: the architecture factories\<close>

type_synonym shape = "nat list"

definition IMAGE_ROWS :: nat where "IMAGE_ROWS = 28"
definition IMAGE_COLS :: nat where "IMAGE_COLS = 28"
definition NUM_CHANNELS :: nat where "NUM_CHANNELS = 1"
definition NUM_CLASSES :: nat where "NUM_CLASSES = 10"

text \<open>
  The names bound in the module's global namespace when a factory runs: the imports of
  lines 1 to 9, the four constants and the functions the module defines.  A name a
  function body uses and the module never binds raises \<open>NameError\<close> when the body runs.
\<close>

definition module_names :: "string list" where
  "module_names =
     [''mnist'', ''Sequential'', ''model_from_json'',
      ''Dense'', ''Dropout'', ''Activation'', ''Flatten'', ''Input'',
      ''Convolution2D'', ''MaxPooling2D'',
      ''ImageDataGenerator'', ''np_utils'', ''argparse'', ''np'',
      ''IMAGE_ROWS'', ''IMAGE_COLS'', ''NUM_CHANNELS'', ''NUM_CLASSES'',
      ''data_mnist'', ''modelA'', ''modelB'', ''modelC'', ''modelD'', ''modelE'',
      ''modelF'', ''model_mnist'', ''data_gen_mnist'', ''load_model'']"

definition lookup_name :: "string \<Rightarrow> py_error + unit" where
  "lookup_name x = (if x \<in> set module_names then Inr () else Inl (NameError x))"

datatype border_mode = Valid | Same

text \<open>
  The layers the factories build, with the arguments the source passes: a convolution
  has its filter count, kernel rows and columns, stride and border mode; a dense layer
  its width and the optional \<open>init\<close> and \<open>activation\<close> keywords; pooling its window.
\<close>

datatype layer =
    Conv nat nat nat "nat \<times> nat" border_mode
  | Activation string
  | Dropout real
  | Flatten
  | Dense nat "string option" "string option"
  | MaxPool "nat \<times> nat"

text \<open>One constructor call of the source: the name it calls, the layer the call
  describes, and the \<open>input_shape\<close> keyword when it is given.\<close>

record layer_call =
  callee :: string
  built :: layer
  input_shape :: "shape option"

definition call :: "string \<Rightarrow> layer \<Rightarrow> layer_call" where
  "call f l = \<lparr>callee = f, built = l, input_shape = None\<rparr>"

definition call_in :: "string \<Rightarrow> layer \<Rightarrow> shape \<Rightarrow> layer_call" where
  "call_in f l s = \<lparr>callee = f, built = l, input_shape = Some s\<rparr>"

text \<open>
  The shape a Keras layer gives (batch axis left out).  A convolution and a pooling
  layer take a three-axis input (rows, columns, channels); with border mode
  \<open>valid\<close> an axis of length \<open>h\<close> becomes \<open>(h - k) div s + 1\<close> and the kernel must
  fit, with \<open>same\<close> it becomes \<open>h\<close> divided by the stride, rounded up.  Pooling uses its
  window as stride.  \<open>Flatten\<close> multiplies the axes out, \<open>Dense\<close> replaces the last
  axis, activation and dropout keep the shape.
\<close>

definition conv_axis :: "border_mode \<Rightarrow> nat \<Rightarrow> nat \<Rightarrow> nat \<Rightarrow> py_error + nat" where
  "conv_axis bm h k s =
     (if s = 0 \<or> k = 0 then Inl (ValueError ''stride or kernel is zero'')
      else case bm of
        Same \<Rightarrow> Inr ((h + s - 1) div s)
      | Valid \<Rightarrow> (if h < k then Inl (ValueError ''negative dimension size'')
                  else Inr ((h - k) div s + 1)))"

fun layer_output_shape :: "layer \<Rightarrow> shape \<Rightarrow> py_error + shape" where
  "layer_output_shape (Conv f r c (sr, sc) bm) [h, w, ch] =
     bind_err (conv_axis bm h r sr) (\<lambda>h'.
     bind_err (conv_axis bm w c sc) (\<lambda>w'. Inr [h', w', f]))"
| "layer_output_shape (Conv f r c st bm) s = Inl (ValueError ''Conv: input is not 4D'')"
| "layer_output_shape (MaxPool (ph, pw)) [h, w, ch] =
     bind_err (conv_axis Valid h ph ph) (\<lambda>h'.
     bind_err (conv_axis Valid w pw pw) (\<lambda>w'. Inr [h', w', ch]))"
| "layer_output_shape (MaxPool p) s = Inl (ValueError ''MaxPool: input is not 4D'')"
| "layer_output_shape (Activation a) s = Inr s"
| "layer_output_shape (Dropout p) s = Inr s"
| "layer_output_shape Flatten s = Inr [prod_list s]"
| "layer_output_shape (Dense n i a) [] = Inl (ValueError ''Dense: no input axis'')"
| "layer_output_shape (Dense n i a) s = Inr (butlast s @ [n])"

text \<open>A \<open>Sequential\<close> model: its layers, and the shapes of one input and one output
  sample.  The model starts empty; the first layer added must say its input shape.\<close>

record model =
  layers :: "layer list"
  in_shape :: shape
  out_shape :: shape

definition Sequential :: "py_error + model" where
  "Sequential =
     bind_err (lookup_name ''Sequential'')
       (\<lambda>_. Inr \<lparr>layers = [], in_shape = [], out_shape = []\<rparr>)"

text \<open>Evaluating the argument of \<open>model.add(...)\<close>: the constructor's name is looked up
  first.\<close>

definition construct :: "layer_call \<Rightarrow> py_error + layer" where
  "construct c = bind_err (lookup_name (callee c)) (\<lambda>_. Inr (built c))"

definition model_add :: "model \<Rightarrow> layer \<Rightarrow> shape option \<Rightarrow> py_error + model" where
  "model_add m l ishape =
     (if layers m = [] then
        (case ishape of
           None \<Rightarrow> Inl (ValueError ''first layer needs input_shape'')
         | Some s \<Rightarrow>
             bind_err (layer_output_shape l s)
               (\<lambda>out. Inr \<lparr>layers = [l], in_shape = s, out_shape = out\<rparr>))
      else
        bind_err (layer_output_shape l (out_shape m))
          (\<lambda>out. Inr (m\<lparr>layers := layers m @ [l], out_shape := out\<rparr>)))"

fun add_all :: "model \<Rightarrow> layer_call list \<Rightarrow> py_error + model" where
  "add_all m [] = Inr m"
| "add_all m (c # cs) =
     bind_err (construct c) (\<lambda>l.
     bind_err (model_add m l (input_shape c)) (\<lambda>m'. add_all m' cs))"

text \<open>A factory body: \<open>model = Sequential()\<close>, the \<open>model.add\<close> calls in order,
  \<open>return model\<close>.\<close>

definition factory :: "layer_call list \<Rightarrow> py_error + model" where
  "factory cs = bind_err Sequential (\<lambda>m. add_all m cs)"

definition input_dims :: shape where
  "input_dims = [IMAGE_ROWS, IMAGE_COLS, NUM_CHANNELS]"

definition modelA :: "py_error + model" where
  "modelA = factory
     [call ''Conv2D'' (Conv 64 5 5 (1, 1) Valid),
      call ''Activation'' (Activation ''relu''),
      call ''Conv2D'' (Conv 64 5 5 (1, 1) Valid),
      call ''Activation'' (Activation ''relu''),
      call ''Dropout'' (Dropout 0.25),
      call ''Flatten'' Flatten,
      call ''Dense'' (Dense 128 None None),
      call ''Activation'' (Activation ''relu''),
      call ''Dropout'' (Dropout 0.5),
      call ''Dense'' (Dense NUM_CLASSES None None)]"

definition modelB :: "py_error + model" where
  "modelB = factory
     [call_in ''Dropout'' (Dropout 0.2) input_dims,
      call ''Convolution2D'' (Conv 64 8 8 (2, 2) Same),
      call ''Activation'' (Activation ''relu''),
      call ''Convolution2D'' (Conv 128 6 6 (2, 2) Valid),
      call ''Activation'' (Activation ''relu''),
      call ''Convolution2D'' (Conv 128 5 5 (1, 1) Valid),
      call ''Activation'' (Activation ''relu''),
      call ''Dropout'' (Dropout 0.5),
      call ''Flatten'' Flatten,
      call ''Dense'' (Dense NUM_CLASSES None None)]"

definition modelC :: "py_error + model" where
  "modelC = factory
     [call_in ''Convolution2D'' (Conv 128 3 3 (1, 1) Valid) input_dims,
      call ''Activation'' (Activation ''relu''),
      call ''Convolution2D'' (Conv 64 3 3 (1, 1) Valid),
      call ''Activation'' (Activation ''relu''),
      call ''Dropout'' (Dropout 0.25),
      call ''Flatten'' Flatten,
      call ''Dense'' (Dense 128 None None),
      call ''Activation'' (Activation ''relu''),
      call ''Dropout'' (Dropout 0.5),
      call ''Dense'' (Dense NUM_CLASSES None None)]"

definition modelD :: "py_error + model" where
  "modelD = factory
     [call_in ''Flatten'' Flatten input_dims,
      call ''Dense'' (Dense 300 (Some ''he_normal'') (Some ''relu'')),
      call ''Dropout'' (Dropout 0.5),
      call ''Dense'' (Dense 300 (Some ''he_normal'') (Some ''relu'')),
      call ''Dropout'' (Dropout 0.5),
      call ''Dense'' (Dense 300 (Some ''he_normal'') (Some ''relu'')),
      call ''Dropout'' (Dropout 0.5),
      call ''Dense'' (Dense 300 (Some ''he_normal'') (Some ''relu'')),
      call ''Dropout'' (Dropout 0.5),
      call ''Dense'' (Dense NUM_CLASSES None None)]"

definition modelE :: "py_error + model" where
  "modelE = factory
     [call_in ''Flatten'' Flatten input_dims,
      call ''Dense'' (Dense 100 None (Some ''relu'')),
      call ''Dense'' (Dense 100 None (Some ''relu'')),
      call ''Dense'' (Dense NUM_CLASSES None None)]"

definition modelF :: "py_error + model" where
  "modelF = factory
     [call_in ''Convolution2D'' (Conv 32 3 3 (1, 1) Valid) input_dims,
      call ''Activation'' (Activation ''relu''),
      call ''MaxPooling2D'' (MaxPool (2, 2)),
      call ''Convolution2D'' (Conv 64 3 3 (1, 1) Valid),
      call ''Activation'' (Activation ''relu''),
      call ''MaxPooling2D'' (MaxPool (2, 2)),
      call ''Flatten'' Flatten,
      call ''Dense'' (Dense 1024 None None),
      call ''Activation'' (Activation ''relu''),
      call ''Dense'' (Dense NUM_CLASSES None None)]"

text \<open>\<open>models[type]()\<close>: the list is indexed first (Python indexing), then the factory
  found there is called.  The parameter's default is 0.\<close>

definition models :: "(py_error + model) list" where
  "models = [modelA, modelB, modelC, modelD, modelE, modelF]"

definition model_mnist :: "int \<Rightarrow> py_error + model" where
  "model_mnist type = bind_err (py_index models type) (\<lambda>f. f)"

text \<open>Feeding a batch: the batch's sample shape must be the model's input shape; the
  output keeps the batch axis.  For a batch of no samples Keras 1.x gives back an empty
  list, which has one axis of length 0.\<close>

definition predict_shape :: "model \<Rightarrow> shape \<Rightarrow> py_error + shape" where
  "predict_shape m batch =
     (case batch of
        [] \<Rightarrow> Inl (ValueError ''no batch axis'')
      | n # s \<Rightarrow> (if s \<noteq> in_shape m then Inl (ValueError ''input shape mismatch'')
                  else if n = 0 then Inr [0]
                  else Inr (n # out_shape m)))"

definition build_and_feed :: "int \<Rightarrow> nat \<Rightarrow> py_error + shape" where
  "build_and_feed type n =
     bind_err (model_mnist type) (\<lambda>m. predict_shape m [n, 28, 28, 1])"

section \<open>mnist.py: \<open>load_model\<close>\<close>

text \<open>
  What \<open>load_model\<close> takes from outside the module: reading a file
  (\<open>open(path, 'r')\<close> followed by \<open>f.read()\<close>, which gives the text or raises),
  Keras's \<open>model_from_json\<close> and the model method \<open>load_weights\<close>.  They are
  parameters; each may raise any exception.
\<close>

record keras_env =
  open_read :: "string \<Rightarrow> py_error + string"
  model_from_json :: "string \<Rightarrow> py_error + model"
  load_weights :: "model \<Rightarrow> string \<Rightarrow> py_error + model"

text \<open>The \<open>try\<close> block: open and read the sidecar, then deserialise it.\<close>

definition load_json :: "keras_env \<Rightarrow> string \<Rightarrow> py_error + model" where
  "load_json K model_path =
     bind_err (open_read K (model_path @ ''.json'')) (model_from_json K)"

text \<open>
  \<open>except IOError\<close> catches an \<open>IOError\<close> raised anywhere in the block and builds
  \<open>model_mnist(type=type)\<close> instead; every other exception leaves the function.
  \<open>load_weights\<close> runs after the block, outside the handler.  The \<open>type\<close>
  parameter is optional, with default 1.
\<close>

definition load_model :: "keras_env \<Rightarrow> string \<Rightarrow> int option \<Rightarrow> py_error + model" where
  "load_model K model_path type_arg =
     (let type = (case type_arg of None \<Rightarrow> 1 | Some t \<Rightarrow> t);
          model = (case load_json K model_path of
                     Inl e \<Rightarrow> (if e = IOError then model_mnist type else Inl e)
                   | Inr m \<Rightarrow> Inr m)
      in bind_err model (\<lambda>m. load_weights K m model_path))"

section \<open>mnist.py: \<open>data_mnist\<close>\<close>

text \<open>A numpy array: its shape and its entries in row-major order.\<close>

record 'a ndarray =
  shape :: shape
  entries :: "'a list"

definition reshape :: "'a ndarray \<Rightarrow> shape \<Rightarrow> py_error + 'a ndarray" where
  "reshape a s =
     (if prod_list s = length (entries a) then Inr \<lparr>shape = s, entries = entries a\<rparr>
      else Inl (ValueError ''cannot reshape array''))"

definition amap :: "('a \<Rightarrow> 'b) \<Rightarrow> 'a ndarray \<Rightarrow> 'b ndarray" where
  "amap f a = \<lparr>shape = shape a, entries = map f (entries a)\<rparr>"

text \<open>\<open>X.shape[0]\<close>\<close>

definition shape0 :: "'a ndarray \<Rightarrow> py_error + nat" where
  "shape0 a = (case shape a of [] \<Rightarrow> Inl IndexError | n # _ \<Rightarrow> Inr n)"

text \<open>
  Single precision.  A float32 value is the real number it stands for; every operation
  gives the exact result rounded to the nearest number with a 24-bit significand, a tie
  going to the even significand.  \<open>f32_exponent x\<close> is the binary exponent of \<open>x\<close>,
  searched downwards from 127 and stopping at -126, the exponent of the subnormal
  numbers; the unit in the last place is 2 to that exponent minus 23.  Overflow to
  infinity (from 2 to the 128 upwards) is not modelled.
\<close>

definition round_even :: "real \<Rightarrow> int" where
  "round_even y =
     (let f = \<lfloor>y\<rfloor>; d = y - of_int f
      in if d < 1 / 2 then f else if 1 / 2 < d then f + 1
         else if even f then f else f + 1)"

fun find_exp :: "nat \<Rightarrow> int \<Rightarrow> real \<Rightarrow> int" where
  "find_exp 0 k x = k"
| "find_exp (Suc n) k x = (if 2 powi k \<le> x then k else find_exp n (k - 1) x)"

definition f32_exponent :: "real \<Rightarrow> int" where
  "f32_exponent x = find_exp 253 127 \<bar>x\<bar>"

definition f32_round :: "real \<Rightarrow> real" where
  "f32_round x =
     (let u = 2 powi (f32_exponent x - 23) in of_int (round_even (x / u)) * u)"


text \<open>\<open>X.astype('float32')\<close> converts each integer to single precision, and
  \<open>X /= 255\<close> divides each entry by 255 in single precision.\<close>

definition astype_float32 :: "int ndarray \<Rightarrow> real ndarray" where
  "astype_float32 a = amap (\<lambda>p. f32_round (real_of_int p)) a"

definition div255 :: "real ndarray \<Rightarrow> real ndarray" where
  "div255 a = amap (\<lambda>v. f32_round (v / 255)) a"

text \<open>
  Keras's \<open>np_utils.to_categorical(y, nb_classes)\<close>: a matrix of zeros with one row
  per label, in which \<open>categorical[i, y[i]] = 1\<close> is assigned by numpy indexing (a
  negative label counts from the end, a label outside \<open>[-nb_classes, nb_classes)\<close>
  raises \<open>IndexError\<close>).
\<close>

definition one_hot_row :: "nat \<Rightarrow> nat \<Rightarrow> real list" where
  "one_hot_row nb k = map (\<lambda>j. if j = k then 1 else 0) [0..<nb]"

definition label_column :: "nat \<Rightarrow> int \<Rightarrow> py_error + nat" where
  "label_column nb l =
     (let j = (if l < 0 then l + int nb else l)
      in if 0 \<le> j \<and> j < int nb then Inr (nat j) else Inl IndexError)"

fun to_categorical :: "int list \<Rightarrow> nat \<Rightarrow> py_error + real list list" where
  "to_categorical [] nb = Inr []"
| "to_categorical (l # ls) nb =
     bind_err (label_column nb l) (\<lambda>k.
     bind_err (to_categorical ls nb) (\<lambda>rows. Inr (one_hot_row nb k # rows)))"

text \<open>The labels \<open>data_mnist\<close> returns: the class ids as loaded, or their one-hot
  matrix.\<close>

datatype label_array = ClassIds "int list" | OneHot "real list list"

text \<open>What \<open>mnist.load_data()\<close> gives: \<open>(X_train, y_train), (X_test, y_test)\<close>.\<close>

type_synonym mnist_raw = "(int ndarray \<times> int list) \<times> (int ndarray \<times> int list)"

definition to_image_tensor :: "int ndarray \<Rightarrow> py_error + int ndarray" where
  "to_image_tensor X =
     bind_err (shape0 X) (\<lambda>n. reshape X [n, IMAGE_ROWS, IMAGE_COLS, NUM_CHANNELS])"

definition data_mnist ::
  "mnist_raw \<Rightarrow> bool \<Rightarrow>
   py_error + (real ndarray \<times> label_array \<times> real ndarray \<times> label_array)" where
  "data_mnist raw one_hot =
     (case raw of ((X_train, y_train), (X_test, y_test)) \<Rightarrow>
        bind_err (to_image_tensor X_train) (\<lambda>X_train.
        bind_err (to_image_tensor X_test) (\<lambda>X_test.
          let X_train = div255 (astype_float32 X_train);
              X_test = div255 (astype_float32 X_test)
          in if one_hot then
               bind_err (to_categorical y_train NUM_CLASSES) (\<lambda>y_train.
               bind_err (to_categorical y_test NUM_CLASSES) (\<lambda>y_test.
                 Inr (X_train, OneHot y_train, X_test, OneHot y_test)))
             else Inr (X_train, ClassIds y_train, X_test, ClassIds y_test))))"

section \<open>cifar10\_train\_ensadv.py: the training graph\<close>

text \<open>
  A tensor entry is a floating-point number: a real number or not-a-number.  Rounding
  and the infinities are not modelled.  Arithmetic with a NaN operand gives NaN;
  \<open>tf.sign\<close> is -1, 0 or 1 and gives 0 for NaN (TensorFlow: zero is returned for NaN
  inputs); clipping leaves NaN as it is.
\<close>

datatype val = NaN | Fin real

fun val_add :: "val \<Rightarrow> val \<Rightarrow> val" where
  "val_add (Fin a) (Fin b) = Fin (a + b)"
| "val_add _ _ = NaN"

fun val_mul :: "val \<Rightarrow> val \<Rightarrow> val" where
  "val_mul (Fin a) (Fin b) = Fin (a * b)"
| "val_mul _ _ = NaN"

fun tf_sign :: "val \<Rightarrow> val" where
  "tf_sign (Fin x) = Fin (sgn x)"
| "tf_sign NaN = Fin 0"

fun clip_by_value :: "val \<Rightarrow> real \<Rightarrow> real \<Rightarrow> val" where
  "clip_by_value (Fin x) lo hi = Fin (max lo (min x hi))"
| "clip_by_value NaN lo hi = NaN"

type_synonym tensor = "val ndarray"

text \<open>Scalar times tensor, and the sum of two tensors of one shape (the gradient of a
  scalar with respect to a tensor has that tensor's shape, so nothing is broadcast).\<close>

definition tensor_scale :: "val \<Rightarrow> tensor \<Rightarrow> tensor" where
  "tensor_scale c t = amap (val_mul c) t"

definition tensor_add :: "tensor \<Rightarrow> tensor \<Rightarrow> tensor" where
  "tensor_add a b = \<lparr>shape = shape a, entries = map2 val_add (entries a) (entries b)\<rparr>"

definition tf_fill :: "shape \<Rightarrow> val \<Rightarrow> tensor" where
  "tf_fill s v = \<lparr>shape = s, entries = replicate (prod_list s) v\<rparr>"

text \<open>
  \<open>tf.argmax(logits, axis=1)\<close>: for each row the index of its largest entry, the
  first one among equals.  The scan starts at index 0 with the lowest value and moves
  to an entry that is greater; no comparison with NaN holds, so a NaN entry is passed
  over (a row of NaN only, or an empty row, gives 0).
\<close>

fun argmax_from :: "nat \<Rightarrow> real option \<Rightarrow> nat \<Rightarrow> val list \<Rightarrow> nat" where
  "argmax_from best bv i [] = best"
| "argmax_from best bv i (NaN # xs) = argmax_from best bv (Suc i) xs"
| "argmax_from best bv i (Fin x # xs) =
     (if (case bv of None \<Rightarrow> True | Some m \<Rightarrow> m < x)
      then argmax_from i (Some x) (Suc i) xs
      else argmax_from best bv (Suc i) xs)"

definition argmax_row :: "val list \<Rightarrow> int" where
  "argmax_row xs = int (argmax_from 0 None 0 xs)"

definition tf_argmax_axis1 :: "val list list \<Rightarrow> int list" where
  "tf_argmax_axis1 logits = map argmax_row logits"

text \<open>
  \<open>tf.case\<close> over a list of (predicate, branch) pairs: the first pair whose predicate
  holds gives the result, the default when none does.
\<close>

fun tf_case :: "(bool \<times> 'a) list \<Rightarrow> 'a \<Rightarrow> 'a" where
  "tf_case [] d = d"
| "tf_case ((p, f) # ps) d = (if p then f else tf_case ps d)"

text \<open>
  What \<open>train\<close> takes from outside the file: \<open>cifar10_reusable.inference\<close> and
  \<open>cifar10_reusable.loss\<close> (functions of the tensors they are passed),
  \<open>tf.gradients\<close> (given a scalar as a function of a tensor, and a point, the gradient
  there), and the flags \<open>batch_size\<close> and \<open>epsilon\<close>.
\<close>

record cifar_env =
  inference :: "tensor \<Rightarrow> val list list"
  loss :: "val list list \<Rightarrow> int list \<Rightarrow> val"
  gradients :: "(tensor \<Rightarrow> val) \<Rightarrow> tensor \<Rightarrow> tensor"
  batch_size :: nat
  epsilon :: val

text \<open>One step's input from \<open>distorted_inputs\<close>.\<close>

record batch =
  images :: tensor
  images_adv_thin :: tensor
  images_adv_wide :: tensor
  images_adv_tutorial :: tensor
  labels :: "int list"

definition logits :: "cifar_env \<Rightarrow> batch \<Rightarrow> val list list" where
  "logits E b = inference E (images b)"

definition loss_benign :: "cifar_env \<Rightarrow> batch \<Rightarrow> val" where
  "loss_benign E b = loss E (logits E b) (labels b)"

text \<open>
  \<open>make_dynamic_adv_images\<close> is a closure over the variables of \<open>train\<close>, so it takes
  the whole batch.  \<open>noleak_loss\<close> depends on the images through the logits (the
  argmax has no gradient: the labels are constants of the differentiation).
  \<open>tf.stop_gradient\<close> does not change the value.
\<close>

definition noleak_labels :: "cifar_env \<Rightarrow> batch \<Rightarrow> int list" where
  "noleak_labels E b = tf_argmax_axis1 (logits E b)"

definition noleak_loss :: "cifar_env \<Rightarrow> batch \<Rightarrow> tensor \<Rightarrow> val" where
  "noleak_loss E b x = loss E (inference E x) (noleak_labels E b)"

definition make_dynamic_adv_images :: "cifar_env \<Rightarrow> batch \<Rightarrow> tensor" where
  "make_dynamic_adv_images E b =
     (let grads = gradients E (noleak_loss E b) (images b);
          perturbation = tensor_scale (epsilon E) (amap tf_sign grads)
      in amap (\<lambda>v. clip_by_value v 0 255) (tensor_add (images b) perturbation))"

definition make_poison :: "cifar_env \<Rightarrow> tensor" where
  "make_poison E = tf_fill [batch_size E, 32, 32, 3] NaN"

text \<open>\<open>adv_choice\<close> is the value drawn by \<open>tf.random_uniform\<close> at this step.\<close>

definition adv_images :: "cifar_env \<Rightarrow> batch \<Rightarrow> int \<Rightarrow> tensor" where
  "adv_images E b adv_choice =
     tf_case
       [(adv_choice = 0, make_dynamic_adv_images E b),
        (adv_choice = 1, images_adv_wide b),
        (adv_choice = 2, images_adv_tutorial b)]
       (make_poison E)"

definition loss_adv :: "cifar_env \<Rightarrow> batch \<Rightarrow> int \<Rightarrow> val" where
  "loss_adv E b adv_choice = loss E (inference E (adv_images E b adv_choice)) (labels b)"

definition loss_total :: "cifar_env \<Rightarrow> batch \<Rightarrow> int \<Rightarrow> val" where
  "loss_total E b adv_choice = val_add (loss_benign E b) (loss_adv E b adv_choice)"

section \<open>Well-formed inputs and sample inputs\<close>

text \<open>
  The MNIST archive as \<open>mnist.load_data()\<close> delivers it: image arrays of shape
  (n, 28, 28) with n * 28 * 28 entries, pixels from 0 to 255, labels from 0 to 9.
  \<open>scaled X\<close> is the list of the raw entries of \<open>X\<close>, each converted to single
  precision and divided by 255 there.
\<close>

definition mnist_images :: "int ndarray \<Rightarrow> bool" where
  "mnist_images X =
     (case shape X of
        [n, r, c] \<Rightarrow> r = 28 \<and> c = 28 \<and> length (entries X) = n * 28 * 28
      | _ \<Rightarrow> False)"

definition mnist_labels :: "int list \<Rightarrow> bool" where
  "mnist_labels ys = list_all (\<lambda>l. 0 \<le> l \<and> l \<le> 9) ys"

definition mnist_pixels :: "int ndarray \<Rightarrow> bool" where
  "mnist_pixels X = list_all (\<lambda>p. 0 \<le> p \<and> p \<le> 255) (entries X)"

definition scaled :: "int ndarray \<Rightarrow> real list" where
  "scaled X = map (\<lambda>p. f32_round (f32_round (real_of_int p) / 255)) (entries X)"

text \<open>Sample inputs: two one-image data sets (the last pixel is 255 in one and 1 in the
  other, the rest are 0), and four file systems for \<open>load_model\<close> (no sidecar, a
  readable sidecar, a sidecar that is not valid JSON, a read that raises an exception
  other than \<open>IOError\<close>).\<close>

definition example_image :: "int ndarray" where
  "example_image = \<lparr>shape = [1, 28, 28], entries = replicate 783 0 @ [255]\<rparr>"

definition example_raw :: mnist_raw where
  "example_raw = ((example_image, [3]), (example_image, [9]))"

definition dim_image :: "int ndarray" where
  "dim_image = \<lparr>shape = [1, 28, 28], entries = replicate 783 0 @ [1]\<rparr>"

definition dim_raw :: mnist_raw where
  "dim_raw = ((dim_image, [3]), (dim_image, [9]))"


definition keras_no_sidecar :: keras_env where
  "keras_no_sidecar =
     \<lparr>open_read = (\<lambda>p. Inl IOError),
      model_from_json = (\<lambda>s. Inl (ValueError ''malformed'')),
      load_weights = (\<lambda>m p. Inr m)\<rparr>"




text \<open>A sample training step: a batch of one 1x1 image (one entry above 255, one
  NaN), and an environment with \<open>epsilon = 0\<close>.\<close>

definition example_env :: cifar_env where
  "example_env =
     \<lparr>inference = (\<lambda>t. [entries t]),
      loss = (\<lambda>l y. Fin 1),
      gradients = (\<lambda>f x. amap (\<lambda>v. val_add v (Fin (- 100))) x),
      batch_size = 1,
      epsilon = Fin 0\<rparr>"

definition example_batch :: batch where
  "example_batch =
     \<lparr>images = \<lparr>shape = [1, 1, 1, 3], entries = [Fin 300, Fin 7, NaN]\<rparr>,
      images_adv_thin = tf_fill [1, 1, 1, 3] (Fin 1),
      images_adv_wide = tf_fill [1, 1, 1, 3] (Fin 2),
      images_adv_tutorial = tf_fill [1, 1, 1, 3] (Fin 3),
      labels = [2]\<rparr>"

section \<open>Properties of the architecture factory\<close>

lemmas build_defs = factory_def Sequential_def lookup_name_def module_names_def bind_err_def
  construct_def model_add_def call_def call_in_def input_dims_def conv_axis_def
  IMAGE_ROWS_def IMAGE_COLS_def NUM_CHANNELS_def NUM_CLASSES_def

lemma modelA_raises: "modelA = Inl (NameError ''Conv2D'')"
  by (simp add: modelA_def build_defs)

lemma modelB_feeds:
  "0 < n \<Longrightarrow> bind_err modelB (\<lambda>m. predict_shape m [n, 28, 28, 1]) = Inr [n, 10]"
  by (simp add: modelB_def build_defs predict_shape_def)

lemma modelC_feeds:
  "0 < n \<Longrightarrow> bind_err modelC (\<lambda>m. predict_shape m [n, 28, 28, 1]) = Inr [n, 10]"
  by (simp add: modelC_def build_defs predict_shape_def)

lemma modelD_feeds:
  "0 < n \<Longrightarrow> bind_err modelD (\<lambda>m. predict_shape m [n, 28, 28, 1]) = Inr [n, 10]"
  by (simp add: modelD_def build_defs predict_shape_def)

lemma modelE_feeds:
  "0 < n \<Longrightarrow> bind_err modelE (\<lambda>m. predict_shape m [n, 28, 28, 1]) = Inr [n, 10]"
  by (simp add: modelE_def build_defs predict_shape_def)

lemma modelF_feeds:
  "0 < n \<Longrightarrow> bind_err modelF (\<lambda>m. predict_shape m [n, 28, 28, 1]) = Inr [n, 10]"
  by (simp add: modelF_def build_defs predict_shape_def)

lemma modelB_returns: "\<not> isl modelB"
  by (simp add: modelB_def build_defs)

lemma modelF_returns: "\<not> isl modelF"
  by (simp add: modelF_def build_defs)

lemma model_mnist_0: "model_mnist 0 = modelA"
  by (simp add: model_mnist_def py_index_def models_def bind_err_def split: sum.splits)

lemma model_mnist_1: "model_mnist 1 = modelB"
  by (simp add: model_mnist_def py_index_def models_def bind_err_def split: sum.splits)

lemma model_mnist_2: "model_mnist 2 = modelC"
  by (simp add: model_mnist_def py_index_def models_def bind_err_def split: sum.splits)

lemma model_mnist_3: "model_mnist 3 = modelD"
  by (simp add: model_mnist_def py_index_def models_def bind_err_def split: sum.splits)

lemma model_mnist_4: "model_mnist 4 = modelE"
  by (simp add: model_mnist_def py_index_def models_def bind_err_def split: sum.splits)

lemma model_mnist_5: "model_mnist 5 = modelF"
  by (simp add: model_mnist_def py_index_def models_def bind_err_def split: sum.splits)

text \<open>Variants B to F are built and map a batch of n samples, n at least 1, of shape
  (n, 28, 28, 1) to an output of shape (n, 10).\<close>

lemma variants_1_to_5:
  assumes "0 < n"
  shows "build_and_feed 1 n = Inr [n, 10]" "build_and_feed 2 n = Inr [n, 10]"
    "build_and_feed 3 n = Inr [n, 10]" "build_and_feed 4 n = Inr [n, 10]"
    "build_and_feed 5 n = Inr [n, 10]"
  unfolding build_and_feed_def model_mnist_1 model_mnist_2 model_mnist_3 model_mnist_4
    model_mnist_5
  by (rule modelB_feeds [OF assms] modelC_feeds [OF assms] modelD_feeds [OF assms]
      modelE_feeds [OF assms] modelF_feeds [OF assms])+

text \<open>
  C1.  Specified: for every variant index in [0,5] and every batch size N, building the
  architecture with \<open>model_mnist\<close> and feeding a batch of shape (N,28,28,1) succeeds
  with an output of shape (N,10), every factory returning a well-formed model.  Variant
  0 does not: \<open>modelA\<close> calls \<open>Conv2D\<close>, a name the module never imports (it imports
  \<open>Convolution2D\<close>, which the other factories use), so \<open>model_mnist(0)\<close> raises
  \<open>NameError\<close> before any layer is added, for every batch size.
\<close>

theorem model_mnist_variant_A_raises:
  "model_mnist 0 = Inl (NameError ''Conv2D'') \<and>
   build_and_feed 0 n = Inl (NameError ''Conv2D'')"
  by (simp add: build_and_feed_def model_mnist_0 modelA_raises bind_err_def)

text \<open>
  C5.  Specified: for every variant index outside [0,5], \<open>model_mnist\<close> fails and no
  such index is mapped to one of the six architectures.  Index -1 is outside [0,5] and
  \<open>models[-1]\<close> is \<open>modelF\<close>, which returns a model.
\<close>

theorem model_mnist_negative_index_counterexample:
  "model_mnist (- 1) = modelF \<and> \<not> isl (model_mnist (- 1)) \<and>
   build_and_feed (- 1) 1 = Inr [1, 10]"
proof -
  have eq: "model_mnist (- 1) = modelF"
    by (simp add: model_mnist_def py_index_def models_def bind_err_def split: sum.splits)
  show ?thesis
    unfolding build_and_feed_def eq using modelF_feeds [of 1] modelF_returns by simp
qed

text \<open>
  C5, as the code has it: an index below -6 or from 6 upwards raises \<open>IndexError\<close> and
  gives no model; an index from -6 to -1 counts from the end of the list, so it selects
  the factory that the index plus 6 selects.
\<close>

theorem model_mnist_index_range:
  "(type < - 6 \<or> 6 \<le> type \<longrightarrow> model_mnist type = Inl IndexError) \<and>
   (- 6 \<le> type \<and> type < 0 \<longrightarrow> model_mnist type = model_mnist (type + 6))"
  by (simp add: model_mnist_def py_index_def models_def bind_err_def Let_def)

theorem model_mnist_index_range_witness:
  "((6::int) \<le> 6 \<and> model_mnist 6 = Inl IndexError) \<and>
   ((- 7::int) < - 6 \<and> model_mnist (- 7) = Inl IndexError) \<and>
   ((- 6::int) \<le> - 1 \<and> (- 1::int) < 0 \<and> model_mnist (- 1) = model_mnist 5)"
  using model_mnist_index_range [of 6] model_mnist_index_range [of "- 7"]
    model_mnist_index_range [of "- 1"]
  by simp

section \<open>Properties of \<open>load_model\<close>\<close>



text \<open>
  C10.  Called without a \<open>type\<close> argument on a path whose sidecar is absent,
  \<open>load_model\<close> builds variant B (index 1), which is a model and is not what variant A
  (index 0) gives, and loads the weights into it.
\<close>

theorem load_model_default_is_variant_B:
  assumes "open_read K (model_path @ ''.json'') = Inl IOError"
  shows "load_model K model_path None = bind_err modelB (\<lambda>m. load_weights K m model_path) \<and>
         modelB = model_mnist 1 \<and> modelB \<noteq> modelA \<and> \<not> isl modelB"
proof -
  have "load_model K model_path None = bind_err (model_mnist 1) (\<lambda>m. load_weights K m model_path)"
    using assms by (simp add: load_model_def load_json_def bind_err_def)
  moreover have "modelB \<noteq> modelA"
  proof -
    have "isl modelA" by (simp add: modelA_raises)
    with modelB_returns show ?thesis by metis
  qed
  ultimately show ?thesis
    using modelB_returns by (simp add: model_mnist_1)
qed

theorem load_model_default_is_variant_B_witness:
  "open_read keras_no_sidecar (''m'' @ ''.json'') = Inl IOError \<and>
   load_model keras_no_sidecar ''m'' None = modelB \<and> modelB \<noteq> modelA \<and> \<not> isl modelB"
proof -
  have a: "open_read keras_no_sidecar (''m'' @ ''.json'') = Inl IOError"
    by (simp add: keras_no_sidecar_def)
  have "bind_err modelB (\<lambda>m. load_weights keras_no_sidecar m ''m'') = modelB"
    by (simp add: keras_no_sidecar_def bind_err_def split: sum.splits)
  then show ?thesis
    using load_model_default_is_variant_B [OF a] a by simp
qed

section \<open>Properties of \<open>data_mnist\<close>\<close>

subsection \<open>Single-precision rounding\<close>

lemma find_exp_eq:
  "e \<le> k \<Longrightarrow> k - int n \<le> e \<Longrightarrow> 2 powi e \<le> x \<Longrightarrow> x < 2 powi (e + 1) \<Longrightarrow>
   find_exp n k x = e"
proof (induction n arbitrary: k)
  case 0
  then show ?case by simp
next
  case (Suc n)
  show ?case
  proof (cases "2 powi k \<le> x")
    case True
    then have "(2::real) powi k < 2 powi (e + 1)" using Suc.prems(4) by simp
    have "\<not> e + 1 \<le> k"
    proof
      assume "e + 1 \<le> k"
      then have "(2::real) powi (e + 1) \<le> 2 powi k"
        by (intro power_int_increasing) simp_all
      with \<open>(2::real) powi k < 2 powi (e + 1)\<close> show False by simp
    qed
    then have "k < e + 1" by simp
    with Suc.prems(1) True show ?thesis by simp
  next
    case False
    then have "(2::real) powi e < 2 powi k" using Suc.prems(3) by simp
    have "\<not> k \<le> e"
    proof
      assume "k \<le> e"
      then have "(2::real) powi k \<le> 2 powi e"
        by (intro power_int_increasing) simp_all
      with \<open>(2::real) powi e < 2 powi k\<close> show False by simp
    qed
    then have "e < k" by simp
    then have "find_exp n (k - 1) x = e"
      using Suc.prems by (intro Suc.IH) simp_all
    with False show ?thesis by simp
  qed
qed

lemma f32_exponent_eq:
  "- 126 \<le> e \<Longrightarrow> e \<le> 127 \<Longrightarrow> 2 powi e \<le> \<bar>x\<bar> \<Longrightarrow> \<bar>x\<bar> < 2 powi (e + 1) \<Longrightarrow>
   f32_exponent x = e"
  unfolding f32_exponent_def by (rule find_exp_eq) simp_all

lemma find_exp_lower: "2 powi (k - int n) \<le> x \<Longrightarrow> 2 powi (find_exp n k x) \<le> x"
  by (induction n arbitrary: k) (auto simp: algebra_simps)

lemma find_exp_upper: "x < 2 powi (k + 1) \<Longrightarrow> x < 2 powi (find_exp n k x + 1)"
  by (induction n arbitrary: k) auto

lemma f32_exponent_bounds:
  assumes "2 powi (- 126) \<le> \<bar>x\<bar>" "\<bar>x\<bar> < 2 powi 128"
  shows "2 powi (f32_exponent x) \<le> \<bar>x\<bar> \<and> \<bar>x\<bar> < 2 powi (f32_exponent x + 1)"
  unfolding f32_exponent_def
  using find_exp_lower [of 127 253 "\<bar>x\<bar>"] find_exp_upper [of "\<bar>x\<bar>" 127 253] assms
  by simp

lemma round_even_close: "\<bar>of_int (round_even y) - y\<bar> \<le> 1 / 2"
  unfolding round_even_def Let_def by (auto; linarith)

lemma round_even_int: "round_even (of_int k) = k"
  by (simp add: round_even_def)

lemma round_even_le: "y \<le> of_int b \<Longrightarrow> round_even y \<le> b"
  unfolding round_even_def Let_def
  by (auto simp: floor_le_iff; linarith)


lemma pow2_exp_le: "(2::real) powi a \<le> 2 powi b \<Longrightarrow> a \<le> b"
proof (rule ccontr)
  assume le: "(2::real) powi a \<le> 2 powi b" and "\<not> a \<le> b"
  then have "b < a" by simp
  then have "(2::real) powi b < 2 powi a"
    by (intro power_int_strict_increasing) simp_all
  with le show False by simp
qed

lemma pow2_exp_less: "(2::real) powi a < 2 powi b \<Longrightarrow> a < b"
proof (rule ccontr)
  assume l: "(2::real) powi a < 2 powi b" and "\<not> a < b"
  then have "b \<le> a" by simp
  then have "(2::real) powi b \<le> 2 powi a"
    by (intro power_int_increasing) simp_all
  with l show False by simp
qed

lemma f32_round_unit:
  assumes lo: "2 powi (- 126) \<le> x" and hi: "x \<le> 1"
  shows "0 \<le> f32_round x \<and> f32_round x \<le> 1 \<and> \<bar>f32_round x - x\<bar> \<le> 1 / 2 ^ 25"
proof -
  define e where "e = f32_exponent x"
  define u :: real where "u = 2 powi (e - 23)"
  define n where "n = round_even (x / u)"
  have xpos: "0 < x"
  proof -
    have "(0::real) < 2 powi (- 126)" by simp
    with lo show ?thesis by linarith
  qed
  have b: "2 powi e \<le> x" "x < 2 powi (e + 1)"
    using f32_exponent_bounds [of x] lo hi xpos unfolding e_def by simp_all
  have upos: "0 < u" by (simp add: u_def)
  have r: "f32_round x = of_int n * u"
    by (simp add: f32_round_def Let_def e_def u_def n_def)
  have "(2::real) powi e \<le> 2 powi 0" using b(1) hi by simp
  then have e0: "e \<le> 0" by (rule pow2_exp_le)
  have u23: "u * 2 ^ 23 = 2 powi e"
    unfolding u_def by (simp add: power_int_diff)
  have u24: "u * 2 ^ 24 = 2 powi (e + 1)"
    unfolding u_def by (simp add: power_int_diff power_int_add)
  have ylo: "2 ^ 23 \<le> x / u"
    using b(1) u23 upos by (simp add: field_simps)
  have yhi: "x / u \<le> 2 ^ 24"
    using b(2) u24 upos by (simp add: field_simps)
  have npos: "0 \<le> n"
  proof -
    have "\<bar>of_int n - x / u\<bar> \<le> 1 / 2" unfolding n_def by (rule round_even_close)
    then have "x / u - 1 / 2 \<le> of_int n" by linarith
    moreover have "(1::real) \<le> 2 ^ 23" by simp
    ultimately have "(0::real) < of_int n + 1" using ylo by linarith
    then show ?thesis by linarith
  qed
  have nhi: "n \<le> 2 ^ 24"
    unfolding n_def by (rule round_even_le) (use yhi in simp)
  have close: "\<bar>of_int n * u - x\<bar> \<le> u / 2"
  proof -
    have "\<bar>of_int n - x / u\<bar> \<le> 1 / 2" unfolding n_def by (rule round_even_close)
    then have "\<bar>of_int n - x / u\<bar> * u \<le> 1 / 2 * u"
      using upos by (intro mult_right_mono) simp_all
    moreover have "\<bar>of_int n - x / u\<bar> * u = \<bar>of_int n * u - x\<bar>"
    proof -
      have "(of_int n - x / u) * u = of_int n * u - x"
        using upos by (simp add: field_simps)
      then have "\<bar>of_int n * u - x\<bar> = \<bar>of_int n - x / u\<bar> * \<bar>u\<bar>"
        by (metis abs_mult)
      then show ?thesis using upos by simp
    qed
    ultimately show ?thesis by simp
  qed
  show ?thesis
  proof (cases "e = 0")
    case True
    then have xe: "x = 1" using b(1) hi by simp
    have ue: "u = 1 / 2 ^ 23" using True by (simp add: u_def power_int_minus field_simps)
    have "x / u = of_int (2 ^ 23)" unfolding xe ue by simp
    then have "n = 2 ^ 23"
      unfolding n_def by (simp only: round_even_int)
    then have "f32_round x = 1" by (simp add: r ue)
    then show ?thesis using xe by simp
  next
    case False
    with e0 have e1: "e + 1 \<le> 0" by simp
    then have p1: "(2::real) powi (e + 1) \<le> 2 powi 0"
      by (intro power_int_increasing) simp_all
    have "of_int n * u \<le> 2 ^ 24 * u"
      using nhi upos by (intro mult_right_mono) (simp_all add: of_int_le_numeral_power_cancel_iff)
    then have le1: "of_int n * u \<le> 1"
      using u24 p1 by (simp add: mult.commute)
    have "u * 2 ^ 24 \<le> 1" using u24 p1 by simp
    then have "u / 2 \<le> 1 / 2 ^ 25" by (simp add: field_simps)
    with close have "\<bar>of_int n * u - x\<bar> \<le> 1 / 2 ^ 25" by linarith
    then show ?thesis
      using le1 npos upos by (simp add: r)
  qed
qed

lemma f32_round_int:
  assumes "1 \<le> p" "p < 2 ^ 24"
  shows "f32_round (of_int p) = of_int p"
proof -
  define x :: real where "x = of_int p"
  define e where "e = f32_exponent x"
  define u :: real where "u = 2 powi (e - 23)"
  have x1: "1 \<le> x" "x < 2 ^ 24" using assms by (simp_all add: x_def)
  have "2 powi (- 126) \<le> \<bar>x\<bar>"
  proof -
    have "(2::real) powi (- 126) \<le> 2 powi 0" by (intro power_int_increasing) simp_all
    with x1 show ?thesis by simp
  qed
  moreover have "\<bar>x\<bar> < 2 powi 128"
  proof -
    have "(2::real) powi 24 \<le> 2 powi 128" by (intro power_int_increasing) simp_all
    with x1 show ?thesis by simp
  qed
  ultimately have b: "2 powi e \<le> x" "x < 2 powi (e + 1)"
    using f32_exponent_bounds [of x] x1 unfolding e_def by simp_all
  have "(2::real) powi 0 < 2 powi (e + 1)" using b(2) x1 by simp
  then have e0: "0 \<le> e" using pow2_exp_less [of 0 "e + 1"] by simp
  have "(2::real) powi e < 2 powi 24" using b(1) x1 by simp
  then have e23: "e \<le> 23" using pow2_exp_less [of e 24] by simp
  have u: "u = 1 / 2 ^ nat (23 - e)"
    using e23 unfolding u_def
    by (simp add: power_int_def field_simps) 
  then have "x / u = of_int (p * 2 ^ nat (23 - e))"
    by (simp add: x_def)
  then have "round_even (x / u) = p * 2 ^ nat (23 - e)"
    by (simp only: round_even_int)
  then have "f32_round x = of_int (p * 2 ^ nat (23 - e)) * u"
    by (simp add: f32_round_def Let_def e_def u_def)
  also have "\<dots> = x" by (simp add: u x_def)
  finally show ?thesis by (simp add: x_def)
qed

lemma f32_round_0: "f32_round 0 = 0"
  by (simp add: f32_round_def round_even_def)


lemma f32_round_pixel:
  assumes "0 \<le> p" "p \<le> 255"
  shows "f32_round (f32_round (real_of_int p) / 255) = f32_round (real_of_int p / 255) \<and>
         \<bar>f32_round (real_of_int p / 255) - real_of_int p / 255\<bar> \<le> 1 / 2 ^ 25 \<and>
         0 \<le> f32_round (real_of_int p / 255) \<and> f32_round (real_of_int p / 255) \<le> 1"
proof (cases "p = 0")
  case True
  then show ?thesis by (simp add: f32_round_0)
next
  case False
  with assms have p: "1 \<le> p" "p < 2 ^ 24" by simp_all
  have exact: "f32_round (real_of_int p) = real_of_int p"
    using p by (rule f32_round_int)
  have "(2::real) powi (- 126) \<le> 2 powi (- 8)"
    by (intro power_int_increasing) simp_all
  also have "\<dots> \<le> 1 / 255" by (simp add: power_int_minus)
  also have "\<dots> \<le> real_of_int p / 255" using p(1) by simp
  finally have lo: "2 powi (- 126) \<le> real_of_int p / 255" .
  have hi: "real_of_int p / 255 \<le> 1" using assms(2) by simp
  show ?thesis
    using f32_round_unit [OF lo hi] by (simp add: exact)
qed

lemma f32_round_255th: "f32_round (1 / 255) = 8421505 / 2147483648"
proof -
  have "f32_exponent (1 / 255) = - 8"
    by (rule f32_exponent_eq) (simp_all add: power_int_minus)
  then show ?thesis
    by (simp add: f32_round_def round_even_def Let_def power_int_minus)
qed

subsection \<open>The loader\<close>

lemma to_image_tensor_Inr:
  "to_image_tensor X = Inr X' \<Longrightarrow> entries X' = entries X \<and> (\<exists>n. shape X' = [n, 28, 28, 1])"
  by (auto simp: to_image_tensor_def bind_err_def shape0_def reshape_def
      IMAGE_ROWS_def IMAGE_COLS_def NUM_CHANNELS_def split: list.splits if_splits)

lemma to_image_tensor_returns:
  "mnist_images X \<Longrightarrow> \<exists>X'. to_image_tensor X = Inr X'"
  by (auto simp: mnist_images_def to_image_tensor_def bind_err_def shape0_def reshape_def
      IMAGE_ROWS_def IMAGE_COLS_def NUM_CHANNELS_def split: list.splits)

lemma entries_div255: "entries (div255 (astype_float32 X)) = scaled X"
  by (simp add: div255_def astype_float32_def amap_def scaled_def)

lemma shape_div255: "shape (div255 (astype_float32 X)) = shape X"
  by (simp add: div255_def astype_float32_def amap_def)

lemma label_column_in_range:
  "0 \<le> l \<Longrightarrow> l < int nb \<Longrightarrow> label_column nb l = Inr (nat l)"
  by (simp add: label_column_def)

lemma to_categorical_in_range:
  "list_all (\<lambda>l. 0 \<le> l \<and> l < int nb) ys \<Longrightarrow>
   to_categorical ys nb = Inr (map (\<lambda>l. one_hot_row nb (nat l)) ys)"
  by (induction ys) (simp_all add: bind_err_def label_column_in_range)

lemma to_categorical_mnist:
  "mnist_labels ys \<Longrightarrow>
   to_categorical ys NUM_CLASSES = Inr (map (\<lambda>l. one_hot_row 10 (nat l)) ys)"
  unfolding mnist_labels_def NUM_CLASSES_def
  by (rule to_categorical_in_range) (auto simp: list_all_iff)

lemma data_mnist_Inr:
  assumes "data_mnist ((Xtr, ytr), (Xte, yte)) oh = Inr (Xtr', ytr', Xte', yte')"
  shows "entries Xtr' = scaled Xtr \<and> entries Xte' = scaled Xte"
  using assms
  by (auto simp: data_mnist_def bind_err_def Let_def entries_div255 scaled_def
      dest!: to_image_tensor_Inr split: sum.splits if_splits)

lemma data_mnist_Inr_ids:
  assumes "data_mnist ((Xtr, ytr), (Xte, yte)) False = Inr (Xtr', ytr', Xte', yte')"
  shows "ytr' = ClassIds ytr \<and> yte' = ClassIds yte"
  using assms
  by (auto simp: data_mnist_def bind_err_def Let_def split: sum.splits)

lemma data_mnist_Inr_one_hot:
  assumes "data_mnist ((Xtr, ytr), (Xte, yte)) True = Inr (Xtr', ytr', Xte', yte')"
  shows "\<exists>rtr rte. to_categorical ytr NUM_CLASSES = Inr rtr \<and> to_categorical yte NUM_CLASSES = Inr rte
     \<and> ytr' = OneHot rtr \<and> yte' = OneHot rte"
  using assms
  by (auto simp: data_mnist_def bind_err_def Let_def split: sum.splits)

lemma data_mnist_returns:
  assumes "mnist_images Xtr" "mnist_images Xte" "oh \<longrightarrow> mnist_labels ytr \<and> mnist_labels yte"
  shows "\<exists>r. data_mnist ((Xtr, ytr), (Xte, yte)) oh = Inr r"
proof -
  obtain A where A: "to_image_tensor Xtr = Inr A" using assms(1) to_image_tensor_returns by blast
  obtain B where B: "to_image_tensor Xte = Inr B" using assms(2) to_image_tensor_returns by blast
  show ?thesis
  proof (cases oh)
    case True
    with assms(3) have "mnist_labels ytr" "mnist_labels yte" by simp_all
    then show ?thesis
      using True by (simp add: data_mnist_def bind_err_def A B to_categorical_mnist)
  next
    case False
    then show ?thesis by (simp add: data_mnist_def bind_err_def A B)
  qed
qed

lemma scaled_range:
  assumes "mnist_pixels X" "i < length (entries X)"
  shows "scaled X ! i = f32_round (real_of_int (entries X ! i) / 255) \<and>
         \<bar>scaled X ! i - real_of_int (entries X ! i) / 255\<bar> \<le> 1 / 2 ^ 25 \<and>
         0 \<le> scaled X ! i \<and> scaled X ! i \<le> 1"
proof -
  have "0 \<le> entries X ! i" "entries X ! i \<le> 255"
    using assms by (simp_all add: mnist_pixels_def list_all_length)
  then show ?thesis
    using f32_round_pixel [of "entries X ! i"] assms(2) by (simp add: scaled_def)
qed

lemma length_one_hot_row: "length (one_hot_row nb k) = nb"
  by (simp add: one_hot_row_def)

lemma nth_one_hot_row: "j < nb \<Longrightarrow> one_hot_row nb k ! j = (if j = k then 1 else 0)"
  by (simp add: one_hot_row_def)

lemma sum_one_hot_row: "k < nb \<Longrightarrow> sum_list (one_hot_row nb k) = 1"
  by (simp add: one_hot_row_def interv_sum_list_conv_sum_set_nat)


text \<open>
  C7.  Specified: given raw pixels that are integers from 0 to 255, every entry of the
  image tensors that \<open>data_mnist\<close> returns equals the raw entry at the same position
  divided by 255, and lies between 0 and 1.  The division is done in single precision:
  for the raw pixel 1 the entry returned is 8421505 / 2147483648, which is not 1 / 255.
\<close>

theorem data_mnist_pixel_quotient_counterexample:
  "entries dim_image ! 783 = 1 \<and>
   data_mnist dim_raw False =
     Inr (\<lparr>shape = [1, 28, 28, 1], entries = replicate 783 0 @ [8421505 / 2147483648]\<rparr>,
          ClassIds [3],
          \<lparr>shape = [1, 28, 28, 1], entries = replicate 783 0 @ [8421505 / 2147483648]\<rparr>,
          ClassIds [9]) \<and>
   (8421505 / 2147483648 :: real) \<noteq> real_of_int 1 / 255"
proof -
  have t: "to_image_tensor dim_image =
       Inr \<lparr>shape = [1, 28, 28, 1], entries = replicate 783 0 @ [1]\<rparr>"
    by (simp add: to_image_tensor_def shape0_def reshape_def bind_err_def dim_image_def
        IMAGE_ROWS_def IMAGE_COLS_def NUM_CHANNELS_def)
  have one: "f32_round 1 = 1"
    using f32_round_int [of 1] by simp
  have d: "div255 (astype_float32 X) =
       \<lparr>shape = shape X, entries = replicate 783 0 @ [8421505 / 2147483648]\<rparr>"
    if "entries X = replicate 783 0 @ [1]" for X
    using that
    by (simp add: div255_def astype_float32_def amap_def f32_round_0 one f32_round_255th)
  have "entries dim_image ! 783 = 1"
    by (simp add: dim_image_def nth_append)
  then show ?thesis
    by (simp add: data_mnist_def dim_raw_def t d bind_err_def)
qed

text \<open>
  C7, as the code has it: given raw pixels that are integers from 0 to 255, every entry
  of the image tensors \<open>X_train\<close> and \<open>X_test\<close> that \<open>data_mnist\<close> returns is the
  single-precision quotient of the raw entry at the same position by 255, that is the raw
  entry divided by 255 and rounded to the nearest single-precision number; it is within
  1 / 2^25 of the raw entry divided by 255, and lies between 0 and 1.  On data of the
  MNIST shape \<open>data_mnist\<close> does return.
\<close>

theorem data_mnist_pixels:
  assumes "mnist_pixels Xtr" and "mnist_pixels Xte"
  shows "(mnist_images Xtr \<and> mnist_images Xte \<and> (oh \<longrightarrow> mnist_labels ytr \<and> mnist_labels yte) \<longrightarrow>
            (\<exists>r. data_mnist ((Xtr, ytr), (Xte, yte)) oh = Inr r)) \<and>
         (\<forall>Xtr' ytr' Xte' yte'.
            data_mnist ((Xtr, ytr), (Xte, yte)) oh = Inr (Xtr', ytr', Xte', yte') \<longrightarrow>
              length (entries Xtr') = length (entries Xtr) \<and>
              length (entries Xte') = length (entries Xte) \<and>
              (\<forall>i < length (entries Xtr).
                 entries Xtr' ! i = f32_round (real_of_int (entries Xtr ! i) / 255) \<and>
                 \<bar>entries Xtr' ! i - real_of_int (entries Xtr ! i) / 255\<bar> \<le> 1 / 2 ^ 25 \<and>
                 0 \<le> entries Xtr' ! i \<and> entries Xtr' ! i \<le> 1) \<and>
              (\<forall>i < length (entries Xte).
                 entries Xte' ! i = f32_round (real_of_int (entries Xte ! i) / 255) \<and>
                 \<bar>entries Xte' ! i - real_of_int (entries Xte ! i) / 255\<bar> \<le> 1 / 2 ^ 25 \<and>
                 0 \<le> entries Xte' ! i \<and> entries Xte' ! i \<le> 1))"
proof -
  have len: "length (scaled X) = length (entries X)" for X
    by (simp add: scaled_def)
  have ret: "mnist_images Xtr \<and> mnist_images Xte \<and> (oh \<longrightarrow> mnist_labels ytr \<and> mnist_labels yte) \<longrightarrow>
            (\<exists>r. data_mnist ((Xtr, ytr), (Xte, yte)) oh = Inr r)"
    using data_mnist_returns by blast
  have props: "\<forall>Xtr' ytr' Xte' yte'.
            data_mnist ((Xtr, ytr), (Xte, yte)) oh = Inr (Xtr', ytr', Xte', yte') \<longrightarrow>
              length (entries Xtr') = length (entries Xtr) \<and>
              length (entries Xte') = length (entries Xte) \<and>
              (\<forall>i < length (entries Xtr).
                 entries Xtr' ! i = f32_round (real_of_int (entries Xtr ! i) / 255) \<and>
                 \<bar>entries Xtr' ! i - real_of_int (entries Xtr ! i) / 255\<bar> \<le> 1 / 2 ^ 25 \<and>
                 0 \<le> entries Xtr' ! i \<and> entries Xtr' ! i \<le> 1) \<and>
              (\<forall>i < length (entries Xte).
                 entries Xte' ! i = f32_round (real_of_int (entries Xte ! i) / 255) \<and>
                 \<bar>entries Xte' ! i - real_of_int (entries Xte ! i) / 255\<bar> \<le> 1 / 2 ^ 25 \<and>
                 0 \<le> entries Xte' ! i \<and> entries Xte' ! i \<le> 1)"
  proof (intro allI impI)
    fix Xtr' ytr' Xte' yte'
    assume "data_mnist ((Xtr, ytr), (Xte, yte)) oh = Inr (Xtr', ytr', Xte', yte')"
    then have e: "entries Xtr' = scaled Xtr" "entries Xte' = scaled Xte"
      using data_mnist_Inr by blast+
    have tr: "\<forall>i < length (entries Xtr).
                 scaled Xtr ! i = f32_round (real_of_int (entries Xtr ! i) / 255) \<and>
                 \<bar>scaled Xtr ! i - real_of_int (entries Xtr ! i) / 255\<bar> \<le> 1 / 2 ^ 25 \<and>
                 0 \<le> scaled Xtr ! i \<and> scaled Xtr ! i \<le> 1"
      by (intro allI impI) (rule scaled_range [OF assms(1)])
    have te: "\<forall>i < length (entries Xte).
                 scaled Xte ! i = f32_round (real_of_int (entries Xte ! i) / 255) \<and>
                 \<bar>scaled Xte ! i - real_of_int (entries Xte ! i) / 255\<bar> \<le> 1 / 2 ^ 25 \<and>
                 0 \<le> scaled Xte ! i \<and> scaled Xte ! i \<le> 1"
      by (intro allI impI) (rule scaled_range [OF assms(2)])
    show "length (entries Xtr') = length (entries Xtr) \<and>
          length (entries Xte') = length (entries Xte) \<and>
          (\<forall>i < length (entries Xtr).
             entries Xtr' ! i = f32_round (real_of_int (entries Xtr ! i) / 255) \<and>
             \<bar>entries Xtr' ! i - real_of_int (entries Xtr ! i) / 255\<bar> \<le> 1 / 2 ^ 25 \<and>
             0 \<le> entries Xtr' ! i \<and> entries Xtr' ! i \<le> 1) \<and>
          (\<forall>i < length (entries Xte).
             entries Xte' ! i = f32_round (real_of_int (entries Xte ! i) / 255) \<and>
             \<bar>entries Xte' ! i - real_of_int (entries Xte ! i) / 255\<bar> \<le> 1 / 2 ^ 25 \<and>
             0 \<le> entries Xte' ! i \<and> entries Xte' ! i \<le> 1)"
      unfolding e using tr te len by (intro conjI)
  qed
  from ret props show ?thesis by (rule conjI)
qed

theorem data_mnist_pixels_witness:
  "mnist_pixels dim_image \<and> mnist_images dim_image \<and>
   mnist_labels [3] \<and> mnist_labels [9] \<and>
   (\<exists>Xtr' ytr' Xte' yte'.
      data_mnist dim_raw True = Inr (Xtr', ytr', Xte', yte') \<and>
      entries Xtr' ! 783 = 8421505 / 2147483648 \<and> entries Xte' ! 0 = 0)"
proof -
  have p: "mnist_pixels dim_image"
    by (simp add: mnist_pixels_def dim_image_def list_all_iff)
  have i: "mnist_images dim_image"
    by (simp add: mnist_images_def dim_image_def)
  have l: "mnist_labels [3]" "mnist_labels [9]"
    by (simp_all add: mnist_labels_def)
  have n: "length (entries dim_image) = 784" "entries dim_image ! 783 = 1"
    "entries dim_image ! 0 = 0"
    by (simp_all add: dim_image_def nth_append)
  note T = data_mnist_pixels [OF p p, of True "[3]" "[9]"]
  from T i l obtain r where r: "data_mnist dim_raw True = Inr r"
    unfolding dim_raw_def by blast
  obtain A B C D where rr: "r = (A, B, C, D)" by (cases r)
  from T r rr have a:
    "\<forall>i < length (entries dim_image).
       entries A ! i = f32_round (real_of_int (entries dim_image ! i) / 255)"
    "\<forall>i < length (entries dim_image).
       entries C ! i = f32_round (real_of_int (entries dim_image ! i) / 255)"
    unfolding dim_raw_def by blast+
  have "entries A ! 783 = 8421505 / 2147483648" "entries C ! 0 = 0"
    using a(1) [rule_format, of 783] a(2) [rule_format, of 0] n
    by (simp_all add: f32_round_255th f32_round_0)
  with r rr p i l show ?thesis by blast
qed

lemma one_hot_rows:
  assumes "mnist_labels ys"
  shows "list_all2 (\<lambda>l row. length row = 10 \<and> sum_list row = 1 \<and>
            (\<forall>j < 10. row ! j = (if int j = l then 1 else 0)))
           ys (map (\<lambda>l. one_hot_row 10 (nat l)) ys)"
proof -
  have "length (one_hot_row 10 (nat l)) = 10 \<and> sum_list (one_hot_row 10 (nat l)) = 1 \<and>
        (\<forall>j < 10. one_hot_row 10 (nat l) ! j = (if int j = l then 1 else 0))"
    if "0 \<le> l" "l \<le> 9" for l
  proof -
    have "nat l < 10" using that by simp
    then show ?thesis
      using that by (auto simp: length_one_hot_row sum_one_hot_row nth_one_hot_row)
  qed
  then show ?thesis
    using assms by (auto simp: mnist_labels_def list_all2_conv_all_nth list_all_length)
qed

text \<open>
  C8.  On labels from 0 to 9, \<open>data_mnist(one_hot=True)\<close> returns label matrices with
  one row per label, each row of length 10, summing to 1, with 1 at the class index and
  0 elsewhere; \<open>data_mnist(one_hot=False)\<close> returns the class ids as they were
  loaded, each from 0 to 9.  On data of the MNIST shape both calls do return.
\<close>

theorem data_mnist_labels:
  assumes "mnist_labels ytr" and "mnist_labels yte"
  shows "(mnist_images Xtr \<and> mnist_images Xte \<longrightarrow>
            (\<exists>r. data_mnist ((Xtr, ytr), (Xte, yte)) True = Inr r) \<and>
            (\<exists>r. data_mnist ((Xtr, ytr), (Xte, yte)) False = Inr r)) \<and>
         (\<forall>Xtr' ytr' Xte' yte'.
            data_mnist ((Xtr, ytr), (Xte, yte)) True = Inr (Xtr', ytr', Xte', yte') \<longrightarrow>
              (\<exists>rtr rte. ytr' = OneHot rtr \<and> yte' = OneHot rte \<and>
                 list_all2 (\<lambda>l row. length row = 10 \<and> sum_list row = 1 \<and>
                    (\<forall>j < 10. row ! j = (if int j = l then 1 else 0))) ytr rtr \<and>
                 list_all2 (\<lambda>l row. length row = 10 \<and> sum_list row = 1 \<and>
                    (\<forall>j < 10. row ! j = (if int j = l then 1 else 0))) yte rte)) \<and>
         (\<forall>Xtr' ytr' Xte' yte'.
            data_mnist ((Xtr, ytr), (Xte, yte)) False = Inr (Xtr', ytr', Xte', yte') \<longrightarrow>
              (\<exists>itr ite. ytr' = ClassIds itr \<and> yte' = ClassIds ite \<and>
                 itr = ytr \<and> ite = yte \<and>
                 list_all (\<lambda>l. 0 \<le> l \<and> l \<le> 9) itr \<and> list_all (\<lambda>l. 0 \<le> l \<and> l \<le> 9) ite))"
proof -
  have ret: "mnist_images Xtr \<and> mnist_images Xte \<longrightarrow>
            (\<exists>r. data_mnist ((Xtr, ytr), (Xte, yte)) True = Inr r) \<and>
            (\<exists>r. data_mnist ((Xtr, ytr), (Xte, yte)) False = Inr r)"
  proof
    assume w: "mnist_images Xtr \<and> mnist_images Xte"
    have "\<exists>r. data_mnist ((Xtr, ytr), (Xte, yte)) True = Inr r"
      by (rule data_mnist_returns) (use w assms in simp_all)
    moreover have "\<exists>r. data_mnist ((Xtr, ytr), (Xte, yte)) False = Inr r"
      by (rule data_mnist_returns) (use w in simp_all)
    ultimately show "(\<exists>r. data_mnist ((Xtr, ytr), (Xte, yte)) True = Inr r) \<and>
            (\<exists>r. data_mnist ((Xtr, ytr), (Xte, yte)) False = Inr r)"
      by (rule conjI)
  qed
  have hot: "\<forall>Xtr' ytr' Xte' yte'.
            data_mnist ((Xtr, ytr), (Xte, yte)) True = Inr (Xtr', ytr', Xte', yte') \<longrightarrow>
              (\<exists>rtr rte. ytr' = OneHot rtr \<and> yte' = OneHot rte \<and>
                 list_all2 (\<lambda>l row. length row = 10 \<and> sum_list row = 1 \<and>
                    (\<forall>j < 10. row ! j = (if int j = l then 1 else 0))) ytr rtr \<and>
                 list_all2 (\<lambda>l row. length row = 10 \<and> sum_list row = 1 \<and>
                    (\<forall>j < 10. row ! j = (if int j = l then 1 else 0))) yte rte)"
  proof (intro allI impI)
    fix Xtr' ytr' Xte' yte'
    assume "data_mnist ((Xtr, ytr), (Xte, yte)) True = Inr (Xtr', ytr', Xte', yte')"
    then obtain rtr rte where c: "to_categorical ytr NUM_CLASSES = Inr rtr"
        "to_categorical yte NUM_CLASSES = Inr rte" "ytr' = OneHot rtr" "yte' = OneHot rte"
      using data_mnist_Inr_one_hot by blast
    have e: "rtr = map (\<lambda>l. one_hot_row 10 (nat l)) ytr"
      "rte = map (\<lambda>l. one_hot_row 10 (nat l)) yte"
      using c assms by (simp_all add: to_categorical_mnist)
    show "\<exists>rtr rte. ytr' = OneHot rtr \<and> yte' = OneHot rte \<and>
                 list_all2 (\<lambda>l row. length row = 10 \<and> sum_list row = 1 \<and>
                    (\<forall>j < 10. row ! j = (if int j = l then 1 else 0))) ytr rtr \<and>
                 list_all2 (\<lambda>l row. length row = 10 \<and> sum_list row = 1 \<and>
                    (\<forall>j < 10. row ! j = (if int j = l then 1 else 0))) yte rte"
    proof (intro exI conjI)
      show "ytr' = OneHot rtr" by (rule c(3))
      show "yte' = OneHot rte" by (rule c(4))
      show "list_all2 (\<lambda>l row. length row = 10 \<and> sum_list row = 1 \<and>
                    (\<forall>j < 10. row ! j = (if int j = l then 1 else 0))) ytr rtr"
        unfolding e by (rule one_hot_rows [OF assms(1)])
      show "list_all2 (\<lambda>l row. length row = 10 \<and> sum_list row = 1 \<and>
                    (\<forall>j < 10. row ! j = (if int j = l then 1 else 0))) yte rte"
        unfolding e by (rule one_hot_rows [OF assms(2)])
    qed
  qed
  have ids: "\<forall>Xtr' ytr' Xte' yte'.
            data_mnist ((Xtr, ytr), (Xte, yte)) False = Inr (Xtr', ytr', Xte', yte') \<longrightarrow>
              (\<exists>itr ite. ytr' = ClassIds itr \<and> yte' = ClassIds ite \<and>
                 itr = ytr \<and> ite = yte \<and>
                 list_all (\<lambda>l. 0 \<le> l \<and> l \<le> 9) itr \<and> list_all (\<lambda>l. 0 \<le> l \<and> l \<le> 9) ite)"
  proof (intro allI impI)
    fix Xtr' ytr' Xte' yte'
    assume "data_mnist ((Xtr, ytr), (Xte, yte)) False = Inr (Xtr', ytr', Xte', yte')"
    then have "ytr' = ClassIds ytr \<and> yte' = ClassIds yte"
      by (rule data_mnist_Inr_ids)
    then show "\<exists>itr ite. ytr' = ClassIds itr \<and> yte' = ClassIds ite \<and>
                 itr = ytr \<and> ite = yte \<and>
                 list_all (\<lambda>l. 0 \<le> l \<and> l \<le> 9) itr \<and> list_all (\<lambda>l. 0 \<le> l \<and> l \<le> 9) ite"
      using assms by (simp add: mnist_labels_def)
  qed
  from ret hot ids show ?thesis by (intro conjI)
qed

theorem data_mnist_labels_witness:
  "mnist_labels [3] \<and> mnist_labels [9] \<and> mnist_images example_image \<and>
   (\<exists>Xtr' Xte' row_tr row_te.
      data_mnist example_raw True = Inr (Xtr', OneHot [row_tr], Xte', OneHot [row_te]) \<and>
      length row_tr = 10 \<and> sum_list row_tr = 1 \<and> row_tr ! 3 = 1 \<and> row_tr ! 9 = 0 \<and>
      length row_te = 10 \<and> sum_list row_te = 1 \<and> row_te ! 9 = 1 \<and> row_te ! 3 = 0) \<and>
   (\<exists>Xtr' Xte'. data_mnist example_raw False = Inr (Xtr', ClassIds [3], Xte', ClassIds [9]))"
proof -
  let ?P = "\<lambda>l row. length row = 10 \<and> sum_list row = (1::real) \<and>
              (\<forall>j < 10. row ! j = (if int j = l then 1 else 0))"
  have l: "mnist_labels [3]" "mnist_labels [9]"
    by (simp_all add: mnist_labels_def)
  have i: "mnist_images example_image"
    by (simp add: mnist_images_def example_image_def)
  note T = data_mnist_labels [OF l, of example_image example_image]
  from T i obtain r1 r2 where r: "data_mnist example_raw True = Inr r1"
      "data_mnist example_raw False = Inr r2"
    unfolding example_raw_def by blast
  obtain A B C D where r1: "r1 = (A, B, C, D)" by (cases r1)
  obtain A' B' C' D' where r2: "r2 = (A', B', C', D')" by (cases r2)
  from T r(1) r1 obtain rtr rte where h: "B = OneHot rtr" "D = OneHot rte"
      "list_all2 ?P [3] rtr" "list_all2 ?P [9] rte"
    unfolding example_raw_def by blast
  from h(3) obtain row_tr where tr: "rtr = [row_tr]" "?P 3 row_tr"
    by (auto simp: list_all2_Cons1)
  from h(4) obtain row_te where te: "rte = [row_te]" "?P 9 row_te"
    by (auto simp: list_all2_Cons1)
  have v: "row_tr ! 3 = 1" "row_tr ! 9 = 0" "row_te ! 9 = 1" "row_te ! 3 = 0"
    using tr(2) [THEN conjunct2, THEN conjunct2, rule_format, of 3]
      tr(2) [THEN conjunct2, THEN conjunct2, rule_format, of 9]
      te(2) [THEN conjunct2, THEN conjunct2, rule_format, of 9]
      te(2) [THEN conjunct2, THEN conjunct2, rule_format, of 3]
    by simp_all
  have hot: "\<exists>Xtr' Xte' row_tr row_te.
      data_mnist example_raw True = Inr (Xtr', OneHot [row_tr], Xte', OneHot [row_te]) \<and>
      length row_tr = 10 \<and> sum_list row_tr = 1 \<and> row_tr ! 3 = 1 \<and> row_tr ! 9 = 0 \<and>
      length row_te = 10 \<and> sum_list row_te = 1 \<and> row_te ! 9 = 1 \<and> row_te ! 3 = 0"
    using r(1) r1 h(1,2) tr te v by (intro exI [of _ A] exI [of _ C] exI [of _ row_tr]
        exI [of _ row_te]) simp
  from T r(2) r2 have "B' = ClassIds [3] \<and> D' = ClassIds [9]"
    unfolding example_raw_def by blast
  then have ids: "\<exists>Xtr' Xte'. data_mnist example_raw False =
      Inr (Xtr', ClassIds [3], Xte', ClassIds [9])"
    using r(2) r2 by (intro exI [of _ A'] exI [of _ C']) simp
  from l i hot ids show ?thesis by (intro conjI)
qed


section \<open>Properties of the training graph\<close>

lemma shape_tf_fill: "shape (tf_fill s v) = s"
  by (simp add: tf_fill_def)

lemma entries_tf_fill: "entries (tf_fill s v) = replicate (prod_list s) v"
  by (simp add: tf_fill_def)

text \<open>
  C2.  At every step the draw 0 selects the dynamic FGSM batch computed at that step,
  1 the precomputed wide batch and 2 the precomputed tutorial batch; any other draw
  gives a tensor of shape (batch_size, 32, 32, 3) all of whose entries are NaN.  The
  precomputed thin batch is never selected: the selected tensor is the same whatever the
  thin batch is.
\<close>

theorem adv_images_selection:
  "adv_images E b 0 = make_dynamic_adv_images E b \<and>
   adv_images E b 1 = images_adv_wide b \<and>
   adv_images E b 2 = images_adv_tutorial b \<and>
   (c \<notin> {0, 1, 2} \<longrightarrow>
      adv_images E b c = make_poison E \<and>
      shape (adv_images E b c) = [batch_size E, 32, 32, 3] \<and>
      length (entries (adv_images E b c)) = batch_size E * 32 * 32 * 3 \<and>
      (\<forall>v \<in> set (entries (adv_images E b c)). v = NaN)) \<and>
   adv_images E (b\<lparr>images_adv_thin := t\<rparr>) c = adv_images E b c"
proof -
  have "noleak_loss E (b\<lparr>images_adv_thin := t\<rparr>) = noleak_loss E b"
    by (rule ext) (simp add: noleak_loss_def noleak_labels_def logits_def)
  then have thin:
    "make_dynamic_adv_images E (b\<lparr>images_adv_thin := t\<rparr>) = make_dynamic_adv_images E b"
    by (simp add: make_dynamic_adv_images_def)
  have poison: "shape (make_poison E) = [batch_size E, 32, 32, 3]"
    "length (entries (make_poison E)) = batch_size E * 32 * 32 * 3"
    "\<forall>v \<in> set (entries (make_poison E)). v = NaN"
    by (simp_all add: make_poison_def shape_tf_fill entries_tf_fill)
  have other: "c \<notin> {0, 1, 2} \<longrightarrow> adv_images E b c = make_poison E"
    by (simp add: adv_images_def)
  show ?thesis
    using poison other thin by (simp add: adv_images_def)
qed

theorem adv_images_selection_witness:
  "(7::int) \<notin> {0, 1, 2} \<and>
   adv_images example_env example_batch 7 = tf_fill [1, 32, 32, 3] NaN \<and>
   shape (adv_images example_env example_batch 7) = [1, 32, 32, 3] \<and>
   length (entries (adv_images example_env example_batch 7)) = 3072 \<and>
   entries (adv_images example_env example_batch 7) = replicate 3072 NaN \<and>
   adv_images example_env example_batch 1 = tf_fill [1, 1, 1, 3] (Fin 2) \<and>
   adv_images example_env example_batch 2 = tf_fill [1, 1, 1, 3] (Fin 3)"
proof -
  have p: "make_poison example_env = tf_fill [1, 32, 32, 3] NaN"
    by (simp add: make_poison_def example_env_def)
  have b: "batch_size example_env = 1" "images_adv_wide example_batch = tf_fill [1, 1, 1, 3] (Fin 2)"
    "images_adv_tutorial example_batch = tf_fill [1, 1, 1, 3] (Fin 3)"
    by (simp_all add: example_env_def example_batch_def)
  show ?thesis
    using adv_images_selection [of example_env example_batch 7 "tf_fill [] NaN"] p b
    by (simp add: shape_tf_fill entries_tf_fill)
qed

lemma zero_perturbation:
  "length gs = length xs \<Longrightarrow>
   map2 val_add xs (map (val_mul (Fin 0)) (map tf_sign gs)) = xs"
proof (induction xs gs rule: list_induct2')
  case (4 x xs g gs)
  have "val_mul (Fin 0) (tf_sign g) = Fin 0" by (cases g) simp_all
  moreover have "val_add x (Fin 0) = x" by (cases x) simp_all
  ultimately show ?case using 4 by simp
qed simp_all

text \<open>
  C3.  With \<open>epsilon = 0\<close> the dynamic adversarial image is the clean image with every
  entry clipped to [0, 255]: the perturbation \<open>0 * sign(grads)\<close> is zero at every
  entry.  The gradient is any tensor with as many entries as the images, which is what
  \<open>tf.gradients\<close> with respect to the images gives.
\<close>

theorem fgsm_epsilon_zero:
  assumes "epsilon E = Fin 0"
    and "length (entries (gradients E (noleak_loss E b) (images b))) = length (entries (images b))"
  shows "make_dynamic_adv_images E b = amap (\<lambda>v. clip_by_value v 0 255) (images b)"
proof -
  let ?g = "entries (gradients E (noleak_loss E b) (images b))"
  have "map2 val_add (entries (images b)) (map (val_mul (Fin 0)) (map tf_sign ?g)) =
        entries (images b)"
    using assms(2) by (rule zero_perturbation)
  then show ?thesis
    using assms(1)
    by (simp add: make_dynamic_adv_images_def Let_def tensor_scale_def tensor_add_def amap_def
        del: map_map)
qed

theorem fgsm_epsilon_zero_witness:
  "epsilon example_env = Fin 0 \<and>
   length (entries (gradients example_env (noleak_loss example_env example_batch)
      (images example_batch))) = length (entries (images example_batch)) \<and>
   make_dynamic_adv_images example_env example_batch =
     \<lparr>shape = [1, 1, 1, 3], entries = [Fin 255, Fin 7, NaN]\<rparr>"
proof -
  have e: "epsilon example_env = Fin 0"
    by (simp add: example_env_def)
  have g: "length (entries (gradients example_env (noleak_loss example_env example_batch)
      (images example_batch))) = length (entries (images example_batch))"
    by (simp add: example_env_def example_batch_def amap_def)
  have "amap (\<lambda>v. clip_by_value v 0 255) (images example_batch) =
      \<lparr>shape = [1, 1, 1, 3], entries = [Fin 255, Fin 7, NaN]\<rparr>"
    by (simp add: example_batch_def amap_def)
  then show ?thesis
    using fgsm_epsilon_zero [OF e g] e g by simp
qed

lemma argmax_row_passes_NaN: "argmax_row [NaN, Fin 1, Fin 2] = 2"
  by (simp add: argmax_row_def)

text \<open>
  C4.  The dynamic adversarial images are built from the gradient, with respect to the
  images, of the loss of the logits against the model's own predictions: the labels of
  that loss are the argmax of the logits of the clean images, row by row.  The
  ground-truth labels of the batch enter neither that loss, nor the gradient, nor the
  adversarial images built from it: these are the same for every value of the batch's
  labels.
\<close>

theorem dynamic_adv_images_use_predicted_labels:
  "noleak_labels E b = map argmax_row (inference E (images b)) \<and>
   noleak_loss E b x = loss E (inference E x) (map argmax_row (inference E (images b))) \<and>
   make_dynamic_adv_images E b =
     amap (\<lambda>v. clip_by_value v 0 255)
       (tensor_add (images b)
          (tensor_scale (epsilon E)
             (amap tf_sign
                (gradients E
                   (\<lambda>x. loss E (inference E x) (map argmax_row (inference E (images b))))
                   (images b))))) \<and>
   noleak_labels E (b\<lparr>labels := ls\<rparr>) = noleak_labels E b \<and>
   noleak_loss E (b\<lparr>labels := ls\<rparr>) = noleak_loss E b \<and>
   gradients E (noleak_loss E (b\<lparr>labels := ls\<rparr>)) (images (b\<lparr>labels := ls\<rparr>)) =
     gradients E (noleak_loss E b) (images b) \<and>
   make_dynamic_adv_images E (b\<lparr>labels := ls\<rparr>) = make_dynamic_adv_images E b"
proof -
  have l: "noleak_labels E (b\<lparr>labels := ls\<rparr>) = noleak_labels E b"
    by (simp add: noleak_labels_def logits_def)
  have n: "noleak_loss E (b\<lparr>labels := ls\<rparr>) = noleak_loss E b"
    by (rule ext) (simp add: noleak_loss_def l)
  have f: "noleak_loss E b =
      (\<lambda>x. loss E (inference E x) (map argmax_row (inference E (images b))))"
    by (rule ext) (simp add: noleak_loss_def noleak_labels_def tf_argmax_axis1_def logits_def)
  have d: "make_dynamic_adv_images E b =
     amap (\<lambda>v. clip_by_value v 0 255)
       (tensor_add (images b)
          (tensor_scale (epsilon E)
             (amap tf_sign (gradients E (noleak_loss E b) (images b)))))"
    by (simp add: make_dynamic_adv_images_def Let_def)
  have m: "make_dynamic_adv_images E (b\<lparr>labels := ls\<rparr>) = make_dynamic_adv_images E b"
    by (simp add: make_dynamic_adv_images_def n)
  show ?thesis
    using l n m d [unfolded f]
    by (simp add: noleak_loss_def noleak_labels_def tf_argmax_axis1_def logits_def)
qed

theorem dynamic_adv_images_use_predicted_labels_witness:
  "noleak_labels example_env example_batch = [0] \<and>
   noleak_labels example_env (example_batch\<lparr>labels := [5]\<rparr>) = [0] \<and>
   make_dynamic_adv_images example_env (example_batch\<lparr>labels := [5]\<rparr>) =
     make_dynamic_adv_images example_env example_batch"
proof -
  have "map argmax_row (inference example_env (images example_batch)) = [0]"
    by (simp add: example_env_def example_batch_def argmax_row_def)
  then show ?thesis
    using dynamic_adv_images_use_predicted_labels [of example_env example_batch _ "[5]"]
    by simp
qed

text \<open>
  C9.  The total loss is the sum of two terms and nothing else: the loss on the clean
  images and the loss on the selected adversarial images, both against the batch's labels
  and both with weight one.
\<close>

theorem loss_total_is_sum:
  "loss_total E b c = val_add (loss_benign E b) (loss_adv E b c) \<and>
   loss_benign E b = loss E (inference E (images b)) (labels b) \<and>
   loss_adv E b c = loss E (inference E (adv_images E b c)) (labels b)"
  by (simp add: loss_total_def loss_benign_def loss_adv_def logits_def)

theorem loss_total_is_sum_witness:
  "loss_total example_env example_batch 2 = Fin 2"
proof -
  have "loss example_env l y = Fin 1" for l y
    by (simp add: example_env_def)
  then show ?thesis
    using loss_total_is_sum [of example_env example_batch 2] by simp
qed


end
